theory Spec2Isabelle
  imports Complex_Main "HOL-Library.Multiset"
begin

section \<open>JavaScript numbers\<close>

text \<open>
  The \<open>amount\<close> of a transaction is a JavaScript number, a binary64 value. The model
  takes the type of numbers as the type variable \<open>'n\<close> with its \<open>+\<close>, \<open>-\<close> and \<open>0\<close> (the
  classes \<open>plus\<close>, \<open>minus\<close> and \<open>zero\<close>, which have no laws). Nothing is assumed of
  the arithmetic, so that every theorem below holds of binary64 addition, which rounds
  and is not associative: a sum is always the sum in the order in which the code adds.
\<close>

section \<open>Data model (types.ts)\<close>

datatype TransactionType = RECEITA | GASTO_FIXO | GASTO_CARTAO | GASTO_DIVERSO

text \<open>The string that a \<open>TransactionType\<close> literal is at run time.\<close>

fun typeString :: "TransactionType \<Rightarrow> string" where
  "typeString RECEITA = ''RECEITA''"
| "typeString GASTO_FIXO = ''GASTO_FIXO''"
| "typeString GASTO_CARTAO = ''GASTO_CARTAO''"
| "typeString GASTO_DIVERSO = ''GASTO_DIVERSO''"

text \<open>
  \<open>TransactionData\<close> is \<open>Omit<Transaction, 'id'>\<close>, the value the form hands to
  \<open>onAdd\<close>; \<open>Transaction\<close> adds the identifier (field \<open>id\<close> of the source, written
  \<open>id'\<close> here). An optional field that is \<open>undefined\<close> is \<open>None\<close>.
\<close>

record 'n TransactionData =
  description :: string
  amount :: 'n
  date :: string
  type :: TransactionType
  category :: string
  isPaid :: bool
  dueDate :: "string option"
  cardName :: "string option"
  installments :: "string option"

record 'n Transaction = "'n TransactionData" +
  id' :: string

section \<open>Application state (App.tsx)\<close>

text \<open>
  The state variables of the \<open>App\<close> component. A handler reads the state of the render
  it belongs to and sets the next one, so it is a function from state to state. The
  effect that writes the collection to \<open>localStorage\<close> after every change is left out, and
  so is \<open>currentView\<close> of the first revision, which no handler below reads or sets.
\<close>

datatype SyncStatus = idle | success | error

record 'n AppState =
  transactions :: "'n Transaction list"
  isFormOpen :: bool
  sheetUrl :: string
  isSyncing :: bool
  syncStatus :: SyncStatus

text \<open>
  \<open>togglePaid\<close>: \<open>setTransactions(transactions.map(t => t.id === id ? { ...t, isPaid:
  !t.isPaid } : t))\<close>.
\<close>

definition togglePaid :: "string \<Rightarrow> 'n AppState \<Rightarrow> 'n AppState" where
  "togglePaid i s =
     s\<lparr>transactions :=
         map (\<lambda>t. if id' t = i then t\<lparr>isPaid := \<not> isPaid t\<rparr> else t) (transactions s)\<rparr>"

text \<open>
  \<open>deleteTransaction\<close>: the answer of the \<open>confirm\<close> dialog is the first argument; a
  declined dialog leaves the state as it is.
\<close>

definition deleteTransaction :: "bool \<Rightarrow> string \<Rightarrow> 'n AppState \<Rightarrow> 'n AppState" where
  "deleteTransaction confirmed i s =
     (if confirmed
      then s\<lparr>transactions := filter (\<lambda>t. id' t \<noteq> i) (transactions s)\<rparr>
      else s)"

section \<open>The form (components/TransactionForm.tsx)\<close>

subsection \<open>\<open>parseFloat\<close>\<close>

text \<open>
  The ECMAScript builtin on ASCII strings, in its two steps. First the syntax: leading
  white space is skipped and the longest prefix that is a \<open>StrDecimalLiteral\<close> is read (an
  optional sign, then \<open>Infinity\<close> or digits with an optional fraction and an optional
  exponent). \<open>strDecimalLiteral\<close> gives the sign and the mathematical value of that prefix,
  or \<open>None\<close> when there is no such prefix: that is the case, and the only one, in which
  \<open>parseFloat\<close> returns \<open>NaN\<close>. Then the value: the Number for what was read, \<open>NaN\<close> for
  \<open>None\<close> and the mathematical value rounded to binary64 otherwise. This second step is
  the parameter \<open>toNumber\<close>.
\<close>

definition isStrWhiteSpaceChar :: "char \<Rightarrow> bool" where
  "isStrWhiteSpaceChar c \<longleftrightarrow> (of_char c :: nat) \<in> {9, 10, 11, 12, 13, 32}"

definition isDecimalDigit :: "char \<Rightarrow> bool" where
  "isDecimalDigit c \<longleftrightarrow> 48 \<le> (of_char c :: nat) \<and> (of_char c :: nat) \<le> 57"

definition digitsValue :: "string \<Rightarrow> nat" where
  "digitsValue ds = foldl (\<lambda>a c. 10 * a + (of_char c - 48)) 0 ds"

text \<open>
  \<open>exponentPart\<close> reads an \<open>ExponentPart\<close> (\<open>e\<close> or \<open>E\<close>, an optional sign, at least one
  digit) at the head of the string; without one the exponent is 0.
\<close>

definition exponentPart :: "string \<Rightarrow> int" where
  "exponentPart r =
     (case r of
        [] \<Rightarrow> 0
      | c # r' \<Rightarrow>
          if c = CHR ''e'' \<or> c = CHR ''E'' then
            (case r' of
               [] \<Rightarrow> 0
             | d # r'' \<Rightarrow>
                 if d = CHR ''+'' then int (digitsValue (takeWhile isDecimalDigit r''))
                 else if d = CHR ''-'' then - int (digitsValue (takeWhile isDecimalDigit r''))
                 else int (digitsValue (takeWhile isDecimalDigit r')))
          else 0)"

definition scale10 :: "real \<Rightarrow> int \<Rightarrow> real" where
  "scale10 m e = (if 0 \<le> e then m * 10 ^ nat e else m / 10 ^ nat (- e))"

datatype Magnitude = Infinity | Decimal real

definition strUnsignedDecimalLiteral :: "string \<Rightarrow> Magnitude option" where
  "strUnsignedDecimalLiteral u =
     (if take 8 u = ''Infinity'' then Some Infinity
      else
        let ip = takeWhile isDecimalDigit u;
            r1 = dropWhile isDecimalDigit u;
            fp = (case r1 of [] \<Rightarrow> [] | c # r \<Rightarrow>
                    if c = CHR ''.'' then takeWhile isDecimalDigit r else []);
            r2 = (case r1 of [] \<Rightarrow> [] | c # r \<Rightarrow>
                    if c = CHR ''.'' then dropWhile isDecimalDigit r else r1)
        in if ip = [] \<and> fp = [] then None
           else Some (Decimal
                  (scale10 (real (digitsValue ip) + real (digitsValue fp) / 10 ^ length fp)
                     (exponentPart r2))))"

text \<open>The result pairs the sign (\<open>True\<close> for a leading \<open>-\<close>) with the magnitude.\<close>

definition strDecimalLiteral :: "string \<Rightarrow> (bool \<times> Magnitude) option" where
  "strDecimalLiteral s =
     (case dropWhile isStrWhiteSpaceChar s of
        [] \<Rightarrow> None
      | c # u \<Rightarrow>
          if c = CHR ''-'' then map_option (Pair True) (strUnsignedDecimalLiteral u)
          else if c = CHR ''+'' then map_option (Pair False) (strUnsignedDecimalLiteral u)
          else map_option (Pair False) (strUnsignedDecimalLiteral (c # u)))"

definition parseFloat :: "((bool \<times> Magnitude) option \<Rightarrow> 'n) \<Rightarrow> string \<Rightarrow> 'n" where
  "parseFloat toNumber s = toNumber (strDecimalLiteral s)"

text \<open>A string parses as a number when \<open>parseFloat\<close> does not return \<open>NaN\<close> on it.\<close>

definition parsesAsNumber :: "string \<Rightarrow> bool" where
  "parsesAsNumber s \<longleftrightarrow> strDecimalLiteral s \<noteq> None"

subsection \<open>The amount input\<close>





subsection \<open>\<open>handleSubmit\<close>\<close>

text \<open>
  The state variables of the component. \<open>formAmount\<close> is the text of the amount input; the
  field names of the source (\<open>description\<close>, \<open>amount\<close>, ...) carry the prefix \<open>form\<close>.
\<close>

record FormState =
  formDescription :: string
  formAmount :: string
  formDate :: string
  formType :: TransactionType
  formCardName :: string
  formInstallments :: string


text \<open>
  \<open>handleSubmit\<close> gets the two callbacks of the component's props. A string is falsy
  exactly when it is empty, so \<open>!description || !amount || !date\<close> tests for an empty
  string; there the function returns before calling anything. \<open>toNumber\<close> is the
  parameter of \<open>parseFloat\<close>.
\<close>

definition handleSubmit ::
  "((bool \<times> Magnitude) option \<Rightarrow> 'n) \<Rightarrow> ('n TransactionData \<Rightarrow> 's \<Rightarrow> 's) \<Rightarrow> ('s \<Rightarrow> 's)
     \<Rightarrow> FormState \<Rightarrow> 's \<Rightarrow> 's" where
  "handleSubmit toNumber onAdd onClose f s =
     (if formDescription f = [] \<or> formAmount f = [] \<or> formDate f = [] then s
      else onClose (onAdd
        \<lparr>description = formDescription f,
         amount = parseFloat toNumber (formAmount f),
         date = formDate f,
         type = formType f,
         category = typeString (formType f),
         isPaid = (formType f = RECEITA),
         dueDate = Some (formDate f),
         cardName = (if formType f = GASTO_CARTAO then Some (formCardName f) else None),
         installments = (if formType f = GASTO_CARTAO then Some (formInstallments f) else None)\<rparr>
        s))"

text \<open>
  The callbacks that \<open>App\<close> passes. \<open>randomId\<close> is the string that
  \<open>Math.random().toString(36).substr(2, 9)\<close> evaluates to in this call; nothing compares
  it with the identifiers in use.
\<close>

definition onAdd :: "string \<Rightarrow> 'n TransactionData \<Rightarrow> 'n AppState \<Rightarrow> 'n AppState" where
  "onAdd randomId data s =
     s\<lparr>transactions := TransactionData.extend data \<lparr>id' = randomId\<rparr> # transactions s\<rparr>"

definition onClose :: "'n AppState \<Rightarrow> 'n AppState" where
  "onClose s = s\<lparr>isFormOpen := False\<rparr>"

text \<open>\<open>add\<close> of the specification: a submission of the form as \<open>App\<close> renders it.\<close>

definition add ::
  "((bool \<times> Magnitude) option \<Rightarrow> 'n) \<Rightarrow> string \<Rightarrow> FormState \<Rightarrow> 'n AppState \<Rightarrow> 'n AppState" where
  "add toNumber randomId f s = handleSubmit toNumber (onAdd randomId) onClose f s"

text \<open>
  The source has no lookup by identifier. The one the specification speaks of is taken as
  \<open>transactions.find(t => t.id === i)\<close>, the first record with the identifier.
\<close>

definition lookup :: "string \<Rightarrow> 'n AppState \<Rightarrow> 'n Transaction option" where
  "lookup i s = find (\<lambda>t. id' t = i) (transactions s)"

text \<open>The record at the head of the collection after \<open>add\<close>.\<close>

definition created ::
  "((bool \<times> Magnitude) option \<Rightarrow> 'n) \<Rightarrow> string \<Rightarrow> FormState \<Rightarrow> 'n AppState \<Rightarrow> 'n Transaction" where
  "created toNumber randomId f s = hd (transactions (add toNumber randomId f s))"

section \<open>Dates (App.tsx)\<close>

text \<open>
  A \<open>Date\<close> object is its time value: \<open>Some t\<close> with \<open>t\<close> the milliseconds since the epoch
  (UTC), or \<open>None\<close> for the time value \<open>NaN\<close> of an invalid date. What \<open>new Date(dateStr)\<close>
  yields depends on the engine outside the ISO formats, so the functions below take it as
  the parameter \<open>parse\<close>. The local time zone is a constant offset \<open>tza\<close> in milliseconds
  (local time is UTC plus \<open>tza\<close>), and \<open>now\<close> is the time value of \<open>new Date()\<close>. A zone
  with daylight saving, where the offset at the due date can differ from the one at
  \<open>now\<close>, is outside this model.
\<close>

type_synonym Date = "int option"

definition msPerDay :: int where
  "msPerDay = 86400000"

text \<open>\<open>d.setHours(0, 0, 0, 0)\<close>: the start of the local day that holds \<open>d\<close>.\<close>

definition setHours0 :: "int \<Rightarrow> Date \<Rightarrow> Date" where
  "setHours0 tza d = map_option (\<lambda>t. ((t + tza) div msPerDay) * msPerDay - tza) d"

text \<open>\<open>a < b\<close> on two dates compares the time values; a comparison with \<open>NaN\<close> is false.\<close>

definition dateLess :: "Date \<Rightarrow> Date \<Rightarrow> bool" where
  "dateLess a b = (case a of None \<Rightarrow> False | Some x \<Rightarrow> (case b of None \<Rightarrow> False | Some y \<Rightarrow> x < y))"

text \<open>\<open>isOverdue\<close>; the source's \<open>isPaid\<close> and \<open>dueDate\<close> are \<open>paid\<close> and \<open>due\<close> here.\<close>

definition isOverdue :: "(string \<Rightarrow> Date) \<Rightarrow> int \<Rightarrow> int \<Rightarrow> string \<Rightarrow> bool \<Rightarrow> bool" where
  "isOverdue parse tza now dateStr paid =
     (if paid then False
      else
        let today = setHours0 tza (Some now);
            due = setHours0 tza (parse dateStr)
        in dateLess due today)"

text \<open>The number of the local calendar day that holds the time value \<open>t\<close>.\<close>

definition localDay :: "int \<Rightarrow> int \<Rightarrow> int" where
  "localDay tza t = (t + tza) div msPerDay"

subsection \<open>The date-only ISO form\<close>

text \<open>
  One instance of the parameter \<open>parse\<close>, for the examples: \<open>Date.parse\<close> on a valid date of
  the form \<open>YYYY-MM-DD\<close>, which is what a date input holds. ECMAScript reads a date-only
  string as midnight UTC of that day. The other strings that an engine reads (date-time
  forms, days past the end of a month) are not covered: \<open>parseIsoDate\<close> is \<open>None\<close> on them.
  \<open>dayFromYear\<close> and the month table are those of the ECMAScript specification.
\<close>

definition isLeapYear :: "int \<Rightarrow> bool" where
  "isLeapYear y \<longleftrightarrow> (y mod 4 = 0 \<and> y mod 100 \<noteq> 0) \<or> y mod 400 = 0"

definition dayFromYear :: "int \<Rightarrow> int" where
  "dayFromYear y =
     365 * (y - 1970) + (y - 1969) div 4 - (y - 1901) div 100 + (y - 1601) div 400"

definition daysInMonth :: "int \<Rightarrow> nat \<Rightarrow> int" where
  "daysInMonth y m =
     (if m = 2 then (if isLeapYear y then 29 else 28)
      else if m \<in> {4, 6, 9, 11} then 30 else 31)"

definition daysBeforeMonth :: "int \<Rightarrow> nat \<Rightarrow> int" where
  "daysBeforeMonth y m = sum_list (map (daysInMonth y) [1 ..< m])"

definition isoDay :: "int \<Rightarrow> nat \<Rightarrow> int \<Rightarrow> int" where
  "isoDay y m d = dayFromYear y + daysBeforeMonth y m + d - 1"

definition parseIsoDate :: "string \<Rightarrow> Date" where
  "parseIsoDate s =
     (if length s = 10 \<and> s ! 4 = CHR ''-'' \<and> s ! 7 = CHR ''-''
         \<and> list_all isDecimalDigit (take 4 s @ take 2 (drop 5 s) @ drop 8 s)
      then
        let y = int (digitsValue (take 4 s));
            m = digitsValue (take 2 (drop 5 s));
            d = int (digitsValue (drop 8 s))
        in if 1 \<le> m \<and> m \<le> 12 \<and> 1 \<le> d \<and> d \<le> daysInMonth y m
           then Some (isoDay y m d * msPerDay) else None
      else None)"

section \<open>Aggregation (App.tsx)\<close>

subsection \<open>Sorting\<close>

text \<open>
  \<open>Array.prototype.sort\<close> with a comparator. A comparator result is \<open>Some v\<close> or \<open>None\<close>
  for \<open>NaN\<close>, which \<open>sort\<close> takes as 0. The sort is stable: the model inserts the elements
  from left to right, each one after the elements that do not compare greater. Where the
  comparator is not consistent (a date that does not parse makes every comparison \<open>NaN\<close>)
  ECMAScript leaves the order to the engine; the model then gives one such order.
\<close>

definition comparesGreater :: "int option \<Rightarrow> bool" where
  "comparesGreater v = (case v of None \<Rightarrow> False | Some x \<Rightarrow> 0 < x)"

fun insertSorted :: "('a \<Rightarrow> 'a \<Rightarrow> int option) \<Rightarrow> 'a \<Rightarrow> 'a list \<Rightarrow> 'a list" where
  "insertSorted cmp x [] = [x]"
| "insertSorted cmp x (y # ys) =
     (if comparesGreater (cmp y x) then x # y # ys else y # insertSorted cmp x ys)"

definition arraySort :: "('a \<Rightarrow> 'a \<Rightarrow> int option) \<Rightarrow> 'a list \<Rightarrow> 'a list" where
  "arraySort cmp xs = foldl (\<lambda>acc x. insertSorted cmp x acc) [] xs"

text \<open>\<open>new Date(a.date).getTime() - new Date(b.date).getTime()\<close>\<close>

definition compareDates ::
  "(string \<Rightarrow> Date) \<Rightarrow> 'n Transaction \<Rightarrow> 'n Transaction \<Rightarrow> int option" where
  "compareDates parse a b =
     (case parse (date a) of
        None \<Rightarrow> None
      | Some x \<Rightarrow> (case parse (date b) of None \<Rightarrow> None | Some y \<Rightarrow> Some (x - y)))"

definition sortedTransactions ::
  "(string \<Rightarrow> Date) \<Rightarrow> 'n Transaction list \<Rightarrow> 'n Transaction list" where
  "sortedTransactions parse txs = arraySort (compareDates parse) txs"

subsection \<open>Grouping\<close>

text \<open>
  The file holds two revisions of \<open>App\<close>. The first one groups into \<open>receitas\<close>,
  \<open>gastosFixos\<close>, \<open>gastosCartoes\<close> and the card buckets \<open>cartoes\<close>; the second one has
  \<open>gastosDiversos\<close> as well and calls the buckets \<open>cartoesDetalhe\<close>. An object literal
  with string keys is an association list in the order of the keys.
\<close>

record 'n Grouped =
  receitas :: "'n Transaction list"
  gastosFixos :: "'n Transaction list"
  gastosCartoes :: "'n Transaction list"
  cartoes :: "(string \<times> 'n Transaction list) list"

record 'n GroupedDetalhe =
  receitasD :: "'n Transaction list"
  gastosFixosD :: "'n Transaction list"
  gastosCartoesD :: "'n Transaction list"
  gastosDiversosD :: "'n Transaction list"
  cartoesDetalhe :: "(string \<times> 'n Transaction list) list"

definition grouped :: "'n Transaction list \<Rightarrow> 'n Grouped" where
  "grouped sortedTxs =
     \<lparr>receitas = rev (filter (\<lambda>t. type t = RECEITA) sortedTxs),
      gastosFixos = filter (\<lambda>t. type t = GASTO_FIXO) sortedTxs,
      gastosCartoes = filter (\<lambda>t. type t = GASTO_CARTAO) sortedTxs,
      cartoes =
        [(''BaneseCard'', filter (\<lambda>t. cardName t = Some ''BaneseCard'') sortedTxs),
         (''Nubank Davi'', filter (\<lambda>t. cardName t = Some ''Nubank Davi'') sortedTxs),
         (''Torra'', filter (\<lambda>t. cardName t = Some ''Torra'') sortedTxs),
         (''Iti Tuy'', filter (\<lambda>t. cardName t = Some ''Iti Tuy'') sortedTxs)]\<rparr>"

definition groupedDetalhe :: "'n Transaction list \<Rightarrow> 'n GroupedDetalhe" where
  "groupedDetalhe sortedTxs =
     \<lparr>receitasD = rev (filter (\<lambda>t. type t = RECEITA) sortedTxs),
      gastosFixosD = filter (\<lambda>t. type t = GASTO_FIXO) sortedTxs,
      gastosCartoesD = filter (\<lambda>t. type t = GASTO_CARTAO) sortedTxs,
      gastosDiversosD = filter (\<lambda>t. type t = GASTO_DIVERSO) sortedTxs,
      cartoesDetalhe =
        [(''BaneseCard'', filter (\<lambda>t. cardName t = Some ''BaneseCard'') sortedTxs),
         (''Nubank Davi'', filter (\<lambda>t. cardName t = Some ''Nubank Davi'') sortedTxs),
         (''Torra'', filter (\<lambda>t. cardName t = Some ''Torra'') sortedTxs),
         (''Iti Tuy'', filter (\<lambda>t. cardName t = Some ''Iti Tuy'') sortedTxs)]\<rparr>"

text \<open>The card names that the form offers and the buckets are keyed by.\<close>

definition cardNames :: "string list" where
  "cardNames = [''BaneseCard'', ''Nubank Davi'', ''Torra'', ''Iti Tuy'']"

subsection \<open>Totals\<close>

text \<open>
  \<open>xs.reduce((a, b) => a + b.amount, 0)\<close>: the amounts of \<open>xs\<close> added one after the
  other from left to right, starting from 0.
\<close>

definition sumAmounts :: "('n::{zero,plus}) Transaction list \<Rightarrow> 'n" where
  "sumAmounts xs = foldl (\<lambda>a b. a + amount b) 0 xs"

record 'n Totals =
  income :: 'n
  expenses :: 'n
  balance :: 'n
  fixedPending :: 'n
  cardsPending :: 'n

text \<open>First revision: \<open>expenses\<close> is taken from the unsorted collection.\<close>

definition totals ::
  "('n::{zero,plus,minus}) Transaction list \<Rightarrow> 'n Grouped \<Rightarrow> 'n Totals" where
  "totals txs g =
     (let income = sumAmounts (receitas g);
          expenses = sumAmounts (filter (\<lambda>t. type t \<noteq> RECEITA) txs);
          fixedPending = sumAmounts (filter (\<lambda>t. \<not> isPaid t) (gastosFixos g));
          cardsPending = sumAmounts (filter (\<lambda>t. \<not> isPaid t) (gastosCartoes g))
      in \<lparr>income = income, expenses = expenses, balance = income - expenses,
          fixedPending = fixedPending, cardsPending = cardsPending\<rparr>)"

text \<open>Second revision: \<open>expenses\<close> is the sum of the three expense groups.\<close>

definition totalsDetalhe :: "('n::{zero,plus,minus}) GroupedDetalhe \<Rightarrow> 'n Totals" where
  "totalsDetalhe g =
     (let income = sumAmounts (receitasD g);
          fixed = sumAmounts (gastosFixosD g);
          cards = sumAmounts (gastosCartoesD g);
          divers = sumAmounts (gastosDiversosD g);
          fixedPending = sumAmounts (filter (\<lambda>t. \<not> isPaid t) (gastosFixosD g));
          cardsPending = sumAmounts (filter (\<lambda>t. \<not> isPaid t) (gastosCartoesD g))
      in \<lparr>income = income, expenses = fixed + cards + divers,
          balance = income - (fixed + cards + divers),
          fixedPending = fixedPending, cardsPending = cardsPending\<rparr>)"

text \<open>The groups of a render, from the collection of the state.\<close>

definition appGrouped :: "(string \<Rightarrow> Date) \<Rightarrow> 'n AppState \<Rightarrow> 'n Grouped" where
  "appGrouped parse s = grouped (sortedTransactions parse (transactions s))"

definition appGroupedDetalhe ::
  "(string \<Rightarrow> Date) \<Rightarrow> 'n AppState \<Rightarrow> 'n GroupedDetalhe" where
  "appGroupedDetalhe parse s = groupedDetalhe (sortedTransactions parse (transactions s))"

text \<open>The records that count for \<open>fixedPending\<close>.\<close>

definition unpaidFixed :: "'n Transaction \<Rightarrow> bool" where
  "unpaidFixed t \<longleftrightarrow> type t = GASTO_FIXO \<and> \<not> isPaid t"

text \<open>
  The list that \<open>fixedPending\<close> adds up, \<open>grouped.gastosFixos.filter(t => !t.isPaid)\<close>, in
  the order of the addition. Both revisions have this list.
\<close>

definition pendingFixed :: "(string \<Rightarrow> Date) \<Rightarrow> 'n AppState \<Rightarrow> 'n Transaction list" where
  "pendingFixed parse s = filter (\<lambda>t. \<not> isPaid t) (gastosFixos (appGrouped parse s))"

text \<open>The memoised values of a render, from the collection of the state.\<close>

definition appTotals ::
  "(string \<Rightarrow> Date) \<Rightarrow> ('n::{zero,plus,minus}) AppState \<Rightarrow> 'n Totals" where
  "appTotals parse s =
     totals (transactions s) (grouped (sortedTransactions parse (transactions s)))"

definition appTotalsDetalhe ::
  "(string \<Rightarrow> Date) \<Rightarrow> ('n::{zero,plus,minus}) AppState \<Rightarrow> 'n Totals" where
  "appTotalsDetalhe parse s =
     totalsDetalhe (groupedDetalhe (sortedTransactions parse (transactions s)))"

section \<open>Remote load (services/googleSheetsService.ts, App.tsx)\<close>

text \<open>
  What \<open>fetch(url)\<close> does is an input: the request fails, or there is a response with its
  \<open>ok\<close> flag and the result of \<open>response.json()\<close>, \<open>None\<close> when the body is not JSON. The
  parsed body has the type of the caller's state and is not inspected.
\<close>

datatype 'a FetchResult = NetworkError | Response bool "'a option"

datatype LoadError = FetchRejected | FalhaAoCarregarDados | JsonSyntaxError

definition loadFromGoogleSheets :: "(string \<Rightarrow> 'a FetchResult) \<Rightarrow> string \<Rightarrow> LoadError + 'a" where
  "loadFromGoogleSheets fetch url =
     (case fetch url of
        NetworkError \<Rightarrow> Inl FetchRejected
      | Response ok body \<Rightarrow>
          if \<not> ok then Inl FalhaAoCarregarDados
          else (case body of None \<Rightarrow> Inl JsonSyntaxError | Some data \<Rightarrow> Inr data))"

text \<open>
  \<open>handleLoad\<close>: \<open>confirmed\<close> is the answer of the \<open>confirm\<close> dialog. The \<open>catch\<close> branch
  only shows an alert; \<open>finally\<close> resets \<open>isSyncing\<close>.
\<close>

definition handleLoad ::
  "bool \<Rightarrow> (string \<Rightarrow> 'n Transaction list FetchResult) \<Rightarrow> 'n AppState \<Rightarrow> 'n AppState" where
  "handleLoad confirmed fetch s =
     (if sheetUrl s = [] then s
      else if \<not> confirmed then s
      else
        let s1 = s\<lparr>isSyncing := True\<rparr>;
            s2 = (case loadFromGoogleSheets fetch (sheetUrl s) of
                    Inr data \<Rightarrow> s1\<lparr>transactions := data\<rparr>
                  | Inl e \<Rightarrow> s1)
        in s2\<lparr>isSyncing := False\<rparr>)"

section \<open>Example data\<close>

subsection \<open>The numbers of the examples\<close>

text \<open>
  The examples need one type of numbers. \<open>number\<close> has \<open>NaN\<close>, the two infinities and
  the finite values, added and subtracted without rounding. The examples use whole-number
  amounts of a few thousand at most, on which this and binary64 arithmetic give the same
  results. \<open>exactNumber\<close> is the conversion for \<open>parseFloat\<close> that goes with it. The
  theorems about the code are stated for every type of numbers and do not depend on this
  one.
\<close>

datatype number = NaN | Fin real | PosInf | NegInf

instantiation number :: "{zero, plus, uminus, minus}"
begin

definition zero_number :: number where
  "zero_number = Fin 0"

fun plus_number :: "number \<Rightarrow> number \<Rightarrow> number" where
  "plus_number NaN _ = NaN"
| "plus_number _ NaN = NaN"
| "plus_number (Fin x) (Fin y) = Fin (x + y)"
| "plus_number (Fin _) PosInf = PosInf"
| "plus_number (Fin _) NegInf = NegInf"
| "plus_number PosInf (Fin _) = PosInf"
| "plus_number NegInf (Fin _) = NegInf"
| "plus_number PosInf PosInf = PosInf"
| "plus_number NegInf NegInf = NegInf"
| "plus_number PosInf NegInf = NaN"
| "plus_number NegInf PosInf = NaN"

fun uminus_number :: "number \<Rightarrow> number" where
  "uminus_number NaN = NaN"
| "uminus_number (Fin x) = Fin (- x)"
| "uminus_number PosInf = NegInf"
| "uminus_number NegInf = PosInf"

definition minus_number :: "number \<Rightarrow> number \<Rightarrow> number" where
  "minus_number a b = a + (- b)"

instance ..

end

fun exactNumber :: "(bool \<times> Magnitude) option \<Rightarrow> number" where
  "exactNumber None = NaN"
| "exactNumber (Some (negative, Infinity)) = (if negative then NegInf else PosInf)"
| "exactNumber (Some (negative, Decimal x)) = Fin (if negative then - x else x)"


text \<open>
  The ledger of the specification's scenario: a salary of 5000 and an unpaid rent of 1500,
  the rent added last and so first in the collection.
\<close>

definition salary :: "number Transaction" where
  "salary =
     \<lparr>description = ''Salary'', amount = Fin 5000, date = ''2024-01-05'', type = RECEITA,
      category = ''RECEITA'', isPaid = True, dueDate = Some ''2024-01-05'', cardName = None,
      installments = None, id' = ''k2j8x0q1z''\<rparr>"

definition rent :: "number Transaction" where
  "rent =
     \<lparr>description = ''Rent'', amount = Fin 1500, date = ''2024-01-10'', type = GASTO_FIXO,
      category = ''GASTO_FIXO'', isPaid = False, dueDate = Some ''2024-01-10'', cardName = None,
      installments = None, id' = ''9f3m1c7pa''\<rparr>"

definition ledger :: "number AppState" where
  "ledger =
     \<lparr>transactions = [rent, salary], isFormOpen = False, sheetUrl = ''https://example.org/exec'',
      isSyncing = False, syncStatus = idle\<rparr>"

text \<open>
  The state of the form that creates the rent, and a ledger that has no record yet.
\<close>

definition rentForm :: FormState where
  "rentForm =
     \<lparr>formDescription = ''Rent'', formAmount = ''1500'', formDate = ''2024-01-10'',
      formType = GASTO_FIXO, formCardName = '''', formInstallments = ''''\<rparr>"

definition emptyLedger :: "number AppState" where
  "emptyLedger = ledger\<lparr>transactions := [], isFormOpen := True\<rparr>"

text \<open>
  A second ledger: the rent and an earlier, paid rent that carries the same identifier.
\<close>

definition rentTwin :: "number Transaction" where
  "rentTwin = rent\<lparr>description := ''Rent (December)'', amount := Fin 700, isPaid := True\<rparr>"

definition twinLedger :: "number AppState" where
  "twinLedger = ledger\<lparr>transactions := [rent, rentTwin]\<rparr>"

text \<open>
  A ledger with two card expenses: one on a configured card and one whose card name is
  not among the configured ones, as a remote load can bring in.
\<close>

definition phone :: "number Transaction" where
  "phone =
     \<lparr>description = ''Phone'', amount = Fin 200, date = ''2024-01-15'', type = GASTO_CARTAO,
      category = ''GASTO_CARTAO'', isPaid = False, dueDate = Some ''2024-01-15'',
      cardName = Some ''Nubank Davi'', installments = Some ''2/6'', id' = ''p0o9i8u7y''\<rparr>"

definition shoes :: "number Transaction" where
  "shoes = phone\<lparr>description := ''Shoes'', amount := Fin 80, date := ''2024-01-03'',
     cardName := Some ''Visa'', installments := Some ''1/1'', id' := ''m4n5b6v7c''\<rparr>"

definition cardLedger :: "number AppState" where
  "cardLedger = ledger\<lparr>transactions := [shoes, phone, rent, salary]\<rparr>"

text \<open>
  A ledger with a misc expense, as \<open>add\<close> creates it, and with a fixed expense that
  carries a card name, as only a remote load can bring in.
\<close>

definition snack :: "number Transaction" where
  "snack =
     \<lparr>description = ''Snack'', amount = Fin 12, date = ''2024-01-07'', type = GASTO_DIVERSO,
      category = ''GASTO_DIVERSO'', isPaid = False, dueDate = Some ''2024-01-07'',
      cardName = None, installments = None, id' = ''t5r4e3w2q''\<rparr>"

definition fee :: "number Transaction" where
  "fee = rent\<lparr>description := ''Annual fee'', amount := Fin 90, cardName := Some ''Torra'',
     id' := ''z1x2c3v4b''\<rparr>"

definition mixedLedger :: "number AppState" where
  "mixedLedger = ledger\<lparr>transactions := [fee, snack, salary]\<rparr>"

text \<open>
  The zone of Brasilia, three hours behind UTC, and the time value of 10 January 2024,
  12:00 in that zone (15:00 UTC).
\<close>

definition utcMinus3 :: int where
  "utcMinus3 = - 3 * 3600000"

definition noonJan10 :: int where
  "noonJan10 = 1704898800000"

text \<open>
  Three behaviours of the endpoint: the request fails, the response has a status outside
  200 to 299, and a response that succeeds with two records of one identifier.
\<close>

definition fetchFails :: "string \<Rightarrow> number Transaction list FetchResult" where
  "fetchFails url = NetworkError"

definition fetchForbidden :: "string \<Rightarrow> number Transaction list FetchResult" where
  "fetchForbidden url = Response False None"

definition fetchTwins :: "string \<Rightarrow> number Transaction list FetchResult" where
  "fetchTwins url = Response True (Some [rentTwin, rentTwin])"

section \<open>Properties of the record store\<close>

lemma map_toggle_absent:
  "i \<notin> id' ` set xs \<Longrightarrow>
   map (\<lambda>t. if id' t = i then t\<lparr>isPaid := \<not> isPaid t\<rparr> else t) xs = xs"
  by (induction xs) auto

lemma filter_absent: "i \<notin> id' ` set xs \<Longrightarrow> filter (\<lambda>t. id' t \<noteq> i) xs = xs"
  by (induction xs) auto

text \<open>
  Claim C7. \<open>togglePaid\<close> is an involution: applied twice with the same identifier it gives
  back the state it started from, so every record, and the matching one among them, has
  its original \<open>isPaid\<close>. This holds for every identifier, present in the collection or not.
\<close>

theorem togglePaid_involution:
  "togglePaid i (togglePaid i s) = s
   \<and> map isPaid (transactions (togglePaid i (togglePaid i s))) = map isPaid (transactions s)"
  by (simp add: togglePaid_def o_def map_idI)

text \<open>
  Claim C8. Two removals of the same identifier are one removal: the second call changes
  nothing once the first was confirmed, and whatever the two dialogs answer the result is
  that of one removal, confirmed if either was. With an identifier that no record has,
  \<open>deleteTransaction\<close> and \<open>togglePaid\<close> give back the state unchanged. Both functions are
  total: the model has no error result because the source has no \<open>throw\<close> on these paths.
\<close>

theorem deleteTransaction_idempotent_unknown_noop:
  "deleteTransaction c2 i (deleteTransaction True i s) = deleteTransaction True i s
   \<and> deleteTransaction c2 i (deleteTransaction c1 i s) = deleteTransaction (c1 \<or> c2) i s
   \<and> (i \<notin> id' ` set (transactions s) \<longrightarrow>
        deleteTransaction c i s = s \<and> togglePaid i s = s)"
  by (simp add: deleteTransaction_def togglePaid_def map_toggle_absent filter_absent)

theorem deleteTransaction_idempotent_unknown_noop_witness:
  "''zzz'' \<notin> id' ` set (transactions ledger)
   \<and> deleteTransaction True ''zzz'' ledger = ledger
   \<and> togglePaid ''zzz'' ledger = ledger
   \<and> transactions (deleteTransaction False ''9f3m1c7pa'' (deleteTransaction True ''9f3m1c7pa'' ledger))
       = [salary]"
proof -
  have absent: "''zzz'' \<notin> id' ` set (transactions ledger)"
    by (simp add: ledger_def rent_def salary_def)
  have once: "transactions (deleteTransaction True ''9f3m1c7pa'' ledger) = [salary]"
    by (simp add: deleteTransaction_def ledger_def rent_def salary_def)
  note twice = deleteTransaction_idempotent_unknown_noop
    [where i = "''9f3m1c7pa''" and s = ledger and ?c2.0 = False]
  note unknown = deleteTransaction_idempotent_unknown_noop
    [where i = "''zzz''" and s = ledger and c = True]
  from twice unknown show ?thesis using absent once by simp
qed

text \<open>
  Claim C10. \<open>togglePaid\<close> changes nothing but \<open>isPaid\<close> of the records with the given
  identifier: the collection keeps its length and the order of its identifiers, a record
  with another identifier is the same record afterwards, a record with the identifier has
  \<open>isPaid\<close> negated, and at every position all other fields are those of before. The rest
  of the state is untouched.
\<close>

theorem togglePaid_frame:
  "length (transactions (togglePaid i s)) = length (transactions s)
   \<and> map id' (transactions (togglePaid i s)) = map id' (transactions s)
   \<and> (togglePaid i s)\<lparr>transactions := transactions s\<rparr> = s
   \<and> (\<forall>k < length (transactions s).
        (id' (transactions s ! k) \<noteq> i \<longrightarrow>
           transactions (togglePaid i s) ! k = transactions s ! k)
      \<and> (id' (transactions s ! k) = i \<longrightarrow>
           isPaid (transactions (togglePaid i s) ! k) = (\<not> isPaid (transactions s ! k)))
      \<and> id' (transactions (togglePaid i s) ! k) = id' (transactions s ! k)
      \<and> description (transactions (togglePaid i s) ! k) = description (transactions s ! k)
      \<and> amount (transactions (togglePaid i s) ! k) = amount (transactions s ! k)
      \<and> date (transactions (togglePaid i s) ! k) = date (transactions s ! k)
      \<and> type (transactions (togglePaid i s) ! k) = type (transactions s ! k)
      \<and> category (transactions (togglePaid i s) ! k) = category (transactions s ! k)
      \<and> dueDate (transactions (togglePaid i s) ! k) = dueDate (transactions s ! k)
      \<and> cardName (transactions (togglePaid i s) ! k) = cardName (transactions s ! k)
      \<and> installments (transactions (togglePaid i s) ! k) = installments (transactions s ! k))"
  by (simp add: togglePaid_def)

theorem togglePaid_frame_witness:
  "(0::nat) < length (transactions ledger) \<and> (1::nat) < length (transactions ledger)
   \<and> id' (transactions ledger ! 0) = ''9f3m1c7pa''
   \<and> id' (transactions ledger ! 1) \<noteq> ''9f3m1c7pa''
   \<and> isPaid (transactions (togglePaid ''9f3m1c7pa'' ledger) ! 0)
   \<and> amount (transactions (togglePaid ''9f3m1c7pa'' ledger) ! 0) = Fin 1500
   \<and> transactions (togglePaid ''9f3m1c7pa'' ledger) ! 1 = salary"
proof -
  have len: "length (transactions ledger) = 2"
    by (simp add: ledger_def)
  have first: "transactions ledger ! 0 = rent" and second: "transactions ledger ! 1 = salary"
    by (simp_all add: ledger_def)
  have ids: "id' rent = ''9f3m1c7pa''" "id' salary \<noteq> ''9f3m1c7pa''"
    by (simp_all add: rent_def salary_def)
  have unpaid: "\<not> isPaid rent" and amt: "amount rent = Fin 1500"
    by (simp_all add: rent_def)
  from togglePaid_frame [of "''9f3m1c7pa''" ledger]
  have "\<forall>k < 2.
        (id' (transactions ledger ! k) \<noteq> ''9f3m1c7pa'' \<longrightarrow>
           transactions (togglePaid ''9f3m1c7pa'' ledger) ! k = transactions ledger ! k)
      \<and> (id' (transactions ledger ! k) = ''9f3m1c7pa'' \<longrightarrow>
           isPaid (transactions (togglePaid ''9f3m1c7pa'' ledger) ! k)
             = (\<not> isPaid (transactions ledger ! k)))
      \<and> amount (transactions (togglePaid ''9f3m1c7pa'' ledger) ! k)
           = amount (transactions ledger ! k)"
    unfolding len by blast
  note at = this [rule_format]
  have "isPaid (transactions (togglePaid ''9f3m1c7pa'' ledger) ! 0)
     \<and> amount (transactions (togglePaid ''9f3m1c7pa'' ledger) ! 0) = Fin 1500"
    using at [of 0] first ids unpaid amt by simp
  moreover have "transactions (togglePaid ''9f3m1c7pa'' ledger) ! 1 = salary"
    using at [of 1] second ids by simp
  ultimately show ?thesis
    using len first second ids by simp
qed

section \<open>Properties of \<open>add\<close>\<close>

lemmas strDecimalLiteral_defs = strDecimalLiteral_def isStrWhiteSpaceChar_def
  strUnsignedDecimalLiteral_def isDecimalDigit_def digitsValue_def exponentPart_def scale10_def

lemma strDecimalLiteral_empty: "strDecimalLiteral [] = None"
  by (simp add: strDecimalLiteral_def)

lemma strDecimalLiteral_1500: "strDecimalLiteral ''1500'' = Some (False, Decimal 1500)"
  by (simp add: strDecimalLiteral_defs)

lemma parseFloat_1500: "parseFloat exactNumber ''1500'' = Fin 1500"
  by (simp add: parseFloat_def strDecimalLiteral_1500)

lemma transactions_add:
  "transactions (add toNumber randomId f s) =
     (if formDescription f = [] \<or> formAmount f = [] \<or> formDate f = [] then transactions s
      else \<lparr>description = formDescription f,
            amount = parseFloat toNumber (formAmount f),
            date = formDate f,
            type = formType f,
            category = typeString (formType f),
            isPaid = (formType f = RECEITA),
            dueDate = Some (formDate f),
            cardName = (if formType f = GASTO_CARTAO then Some (formCardName f) else None),
            installments = (if formType f = GASTO_CARTAO then Some (formInstallments f) else None),
            id' = randomId\<rparr> # transactions s)"
  by (simp add: add_def handleSubmit_def onAdd_def onClose_def TransactionData.defs)


subsection \<open>What the amount input lets through\<close>








lemma created_valid:
  assumes "formDescription f \<noteq> []" "formAmount f \<noteq> []" "formDate f \<noteq> []"
  shows "transactions (add toNumber randomId f s) = created toNumber randomId f s # transactions s"
    and "created toNumber randomId f s =
      \<lparr>description = formDescription f,
       amount = parseFloat toNumber (formAmount f),
       date = formDate f,
       type = formType f,
       category = typeString (formType f),
       isPaid = (formType f = RECEITA),
       dueDate = Some (formDate f),
       cardName = (if formType f = GASTO_CARTAO then Some (formCardName f) else None),
       installments = (if formType f = GASTO_CARTAO then Some (formInstallments f) else None),
       id' = randomId\<rparr>"
  using assms by (simp_all add: created_def transactions_add)

text \<open>
  Claim C2, amended. For a non-empty description, an amount text that parses and a
  non-empty date, \<open>add\<close> puts one new record at the head of the collection. Its
  identifier is the generated string, which is fresh whenever that string is not yet an
  identifier of the collection (the code does not check); its category is its type,
  \<open>isPaid\<close> holds exactly for \<open>RECEITA\<close>, \<open>cardName\<close> and \<open>installments\<close> are absent
  unless the type is \<open>GASTO_CARTAO\<close>, and they are the form's values then. A lookup by the
  identifier afterwards yields this record, whose description, amount, date and type are
  those of the input.
\<close>

theorem add_creates_record:
  assumes "formDescription f \<noteq> []" and "parsesAsNumber (formAmount f)" and "formDate f \<noteq> []"
  shows "transactions (add toNumber randomId f s) = created toNumber randomId f s # transactions s
       \<and> id' (created toNumber randomId f s) = randomId
       \<and> (randomId \<notin> id' ` set (transactions s) \<longrightarrow>
            id' (created toNumber randomId f s) \<notin> id' ` set (transactions s))
       \<and> category (created toNumber randomId f s) = typeString (type (created toNumber randomId f s))
       \<and> (isPaid (created toNumber randomId f s) \<longleftrightarrow> type (created toNumber randomId f s) = RECEITA)
       \<and> (type (created toNumber randomId f s) \<noteq> GASTO_CARTAO \<longrightarrow>
            cardName (created toNumber randomId f s) = None
            \<and> installments (created toNumber randomId f s) = None)
       \<and> (type (created toNumber randomId f s) = GASTO_CARTAO \<longrightarrow>
            cardName (created toNumber randomId f s) = Some (formCardName f)
            \<and> installments (created toNumber randomId f s) = Some (formInstallments f))
       \<and> lookup randomId (add toNumber randomId f s) = Some (created toNumber randomId f s)
       \<and> description (created toNumber randomId f s) = formDescription f
       \<and> amount (created toNumber randomId f s) = parseFloat toNumber (formAmount f)
       \<and> date (created toNumber randomId f s) = formDate f
       \<and> type (created toNumber randomId f s) = formType f"
proof -
  from assms(2) have "formAmount f \<noteq> []"
    using strDecimalLiteral_empty by (auto simp: parsesAsNumber_def)
  note new = created_valid [OF assms(1) this assms(3), of toNumber randomId s]
  have "lookup randomId (add toNumber randomId f s) = Some (created toNumber randomId f s)"
    by (simp add: lookup_def new(1)) (simp add: new(2))
  then show ?thesis
    by (simp add: new(1)) (simp add: new(2))
qed

theorem add_creates_record_witness:
  "formDescription rentForm \<noteq> [] \<and> parsesAsNumber (formAmount rentForm)
   \<and> formDate rentForm \<noteq> []
   \<and> ''9f3m1c7pa'' \<notin> id' ` set (transactions emptyLedger)
   \<and> type (created exactNumber ''9f3m1c7pa'' rentForm emptyLedger) \<noteq> GASTO_CARTAO
   \<and> transactions (add exactNumber ''9f3m1c7pa'' rentForm emptyLedger) = [rent]
   \<and> lookup ''9f3m1c7pa'' (add exactNumber ''9f3m1c7pa'' rentForm emptyLedger) = Some rent"
proof -
  have d: "formDescription rentForm \<noteq> []" and a: "parsesAsNumber (formAmount rentForm)"
    and t: "formDate rentForm \<noteq> []"
    by (simp_all add: rentForm_def parsesAsNumber_def strDecimalLiteral_1500)
  have fresh: "''9f3m1c7pa'' \<notin> id' ` set (transactions emptyLedger)"
    by (simp add: emptyLedger_def)
  have new: "created exactNumber ''9f3m1c7pa'' rentForm emptyLedger = rent"
    by (simp add: created_def transactions_add rentForm_def rent_def parseFloat_1500)
  from add_creates_record [OF d a t, of exactNumber "''9f3m1c7pa''" emptyLedger]
  have "transactions (add exactNumber ''9f3m1c7pa'' rentForm emptyLedger) =
          created exactNumber ''9f3m1c7pa'' rentForm emptyLedger # transactions emptyLedger
      \<and> lookup ''9f3m1c7pa'' (add exactNumber ''9f3m1c7pa'' rentForm emptyLedger) =
          Some (created exactNumber ''9f3m1c7pa'' rentForm emptyLedger)"
    by blast
  then show ?thesis
    using d a t fresh new by (simp add: emptyLedger_def rent_def)
qed

text \<open>
  Claim C2 as stated fails in the freshness of the identifier: when the generated string
  is the identifier of the salary, the new record shares it and the identifiers of the
  collection are no longer distinct.
\<close>

theorem add_fresh_id_counterexample:
  "formDescription rentForm \<noteq> [] \<and> parsesAsNumber (formAmount rentForm)
   \<and> formDate rentForm \<noteq> []
   \<and> id' (created exactNumber ''k2j8x0q1z'' rentForm ledger) \<in> id' ` set (transactions ledger)
   \<and> \<not> distinct (map id' (transactions (add exactNumber ''k2j8x0q1z'' rentForm ledger)))"
  by (simp add: created_def transactions_add rentForm_def parsesAsNumber_def
      strDecimalLiteral_1500 ledger_def rent_def salary_def)

section \<open>Properties of the sorting and the grouping\<close>

lemma mset_insertSorted: "mset (insertSorted cmp x xs) = add_mset x (mset xs)"
  by (induction xs) auto

lemma mset_foldl_insertSorted:
  "mset (foldl (\<lambda>acc x. insertSorted cmp x acc) acc xs) = mset acc + mset xs"
  by (induction xs arbitrary: acc) (auto simp: mset_insertSorted)

lemma mset_sortedTransactions: "mset (sortedTransactions parse txs) = mset txs"
  by (simp add: sortedTransactions_def arraySort_def mset_foldl_insertSorted)

lemma set_sortedTransactions: "set (sortedTransactions parse txs) = set txs"
  using mset_sortedTransactions [of parse txs] by (metis set_mset_mset)

lemma mset_by_type: "mset xs =
    filter_mset (\<lambda>t. type t = RECEITA) (mset xs) + filter_mset (\<lambda>t. type t = GASTO_FIXO) (mset xs)
    + filter_mset (\<lambda>t. type t = GASTO_CARTAO) (mset xs)
    + filter_mset (\<lambda>t. type t = GASTO_DIVERSO) (mset xs)"
proof (induction xs)
  case Nil
  show ?case by simp
next
  case (Cons t ts)
  then show ?case
    by (cases "type t") simp_all
qed


lemma mset_without_misc: "filter_mset (\<lambda>t. type t \<noteq> GASTO_DIVERSO) (mset xs) =
    filter_mset (\<lambda>t. type t = RECEITA) (mset xs)
    + filter_mset (\<lambda>t. type t = GASTO_FIXO) (mset xs)
    + filter_mset (\<lambda>t. type t = GASTO_CARTAO) (mset xs)"
proof (induction xs)
  case Nil
  show ?case by simp
next
  case (Cons t ts)
  then show ?case
    by (cases "type t") simp_all
qed

lemma groups_mset_each:
  "mset (receitasD (appGroupedDetalhe parse s))
     = filter_mset (\<lambda>t. type t = RECEITA) (mset (transactions s))"
  "mset (gastosFixosD (appGroupedDetalhe parse s))
     = filter_mset (\<lambda>t. type t = GASTO_FIXO) (mset (transactions s))"
  "mset (gastosCartoesD (appGroupedDetalhe parse s))
     = filter_mset (\<lambda>t. type t = GASTO_CARTAO) (mset (transactions s))"
  "mset (gastosDiversosD (appGroupedDetalhe parse s))
     = filter_mset (\<lambda>t. type t = GASTO_DIVERSO) (mset (transactions s))"
  by (simp_all add: appGroupedDetalhe_def groupedDetalhe_def mset_sortedTransactions)

lemma first_revision_groups:
  "receitas (appGrouped parse s) = receitasD (appGroupedDetalhe parse s)"
  "gastosFixos (appGrouped parse s) = gastosFixosD (appGroupedDetalhe parse s)"
  "gastosCartoes (appGrouped parse s) = gastosCartoesD (appGroupedDetalhe parse s)"
  "cartoes (appGrouped parse s) = cartoesDetalhe (appGroupedDetalhe parse s)"
  by (simp_all add: appGrouped_def appGroupedDetalhe_def grouped_def groupedDetalhe_def)

lemmas parseIsoDate_defs = parseIsoDate_def isDecimalDigit_def digitsValue_def daysInMonth_def
  isLeapYear_def isoDay_def dayFromYear_def daysBeforeMonth_def msPerDay_def

lemmas sort_defs = sortedTransactions_def arraySort_def compareDates_def comparesGreater_def

lemma sorted_ledger: "sortedTransactions parseIsoDate (transactions ledger) = [salary, rent]"
  by (simp add: sort_defs ledger_def rent_def salary_def parseIsoDate_defs upt_conv_Cons)

section \<open>Properties of the totals\<close>

lemma totals_fields:
  "income (appTotals parse s) = sumAmounts (receitas (appGrouped parse s))"
  "expenses (appTotals parse s) = sumAmounts (filter (\<lambda>t. type t \<noteq> RECEITA) (transactions s))"
  "balance (appTotals parse s) = income (appTotals parse s) - expenses (appTotals parse s)"
  "fixedPending (appTotals parse s) = sumAmounts (pendingFixed parse s)"
  by (simp_all add: appTotals_def totals_def Let_def appGrouped_def pendingFixed_def)

lemma totalsDetalhe_fields:
  "income (appTotalsDetalhe parse s) = sumAmounts (receitasD (appGroupedDetalhe parse s))"
  "expenses (appTotalsDetalhe parse s) =
     sumAmounts (gastosFixosD (appGroupedDetalhe parse s))
     + sumAmounts (gastosCartoesD (appGroupedDetalhe parse s))
     + sumAmounts (gastosDiversosD (appGroupedDetalhe parse s))"
  "balance (appTotalsDetalhe parse s) =
     income (appTotalsDetalhe parse s) - expenses (appTotalsDetalhe parse s)"
  "fixedPending (appTotalsDetalhe parse s) = sumAmounts (pendingFixed parse s)"
  by (simp_all add: appTotalsDetalhe_def totalsDetalhe_def Let_def appGroupedDetalhe_def
      pendingFixed_def appGrouped_def grouped_def groupedDetalhe_def)




text \<open>The scenario of the specification, on the example ledger.\<close>

lemma scenario_totals:
  "income (appTotals parseIsoDate ledger) = Fin 5000
   \<and> expenses (appTotals parseIsoDate ledger) = Fin 1500
   \<and> balance (appTotals parseIsoDate ledger) = Fin 3500
   \<and> fixedPending (appTotals parseIsoDate ledger) = Fin 1500"
proof -
  have inc: "income (appTotals parseIsoDate ledger) = Fin 5000"
    by (simp add: totals_fields appGrouped_def grouped_def sorted_ledger)
      (simp add: sumAmounts_def rent_def salary_def zero_number_def)
  have exp: "expenses (appTotals parseIsoDate ledger) = Fin 1500"
    by (simp add: totals_fields ledger_def sumAmounts_def rent_def salary_def zero_number_def)
  have bal: "balance (appTotals parseIsoDate ledger) = Fin 3500"
    by (simp add: totals_fields(3) inc exp minus_number_def)
  have pend: "fixedPending (appTotals parseIsoDate ledger) = Fin 1500"
    by (simp add: totals_fields pendingFixed_def appGrouped_def grouped_def sorted_ledger)
      (simp add: sumAmounts_def rent_def salary_def zero_number_def)
  show ?thesis
    using inc exp bal pend by simp
qed

section \<open>Toggling and the totals\<close>

lemma transactions_togglePaid:
  "transactions (togglePaid i s) =
     map (\<lambda>t. if id' t = i then t\<lparr>isPaid := \<not> isPaid t\<rparr> else t) (transactions s)"
  by (simp add: togglePaid_def)

text \<open>Sorting commutes with a change of the records that leaves the dates alone.\<close>

lemma insertSorted_map:
  assumes "\<And>a b. cmp (f a) (f b) = cmp a b"
  shows "insertSorted cmp (f x) (map f xs) = map f (insertSorted cmp x xs)"
  by (induction xs) (simp_all add: assms)

lemma foldl_insertSorted_map:
  assumes "\<And>a b. cmp (f a) (f b) = cmp a b"
  shows "foldl (\<lambda>acc x. insertSorted cmp x acc) (map f acc) (map f xs) =
         map f (foldl (\<lambda>acc x. insertSorted cmp x acc) acc xs)"
proof (induction xs arbitrary: acc)
  case Nil
  show ?case by simp
next
  case (Cons x xs)
  from Cons [of "insertSorted cmp x acc"] show ?case
    by (simp add: insertSorted_map [of cmp f, OF assms])
qed

lemma sortedTransactions_toggle:
  "sortedTransactions parse (map (\<lambda>t. if id' t = i then t\<lparr>isPaid := \<not> isPaid t\<rparr> else t) xs) =
   map (\<lambda>t. if id' t = i then t\<lparr>isPaid := \<not> isPaid t\<rparr> else t) (sortedTransactions parse xs)"
proof -
  have "compareDates parse (if id' a = i then a\<lparr>isPaid := \<not> isPaid a\<rparr> else a)
          (if id' b = i then b\<lparr>isPaid := \<not> isPaid b\<rparr> else b) = compareDates parse a b"
    for a b :: "'a Transaction"
    by (simp add: compareDates_def split: option.splits)
  from foldl_insertSorted_map [of "compareDates parse"
      "\<lambda>t. if id' t = i then t\<lparr>isPaid := \<not> isPaid t\<rparr> else t" "[]" xs, OF this]
  show ?thesis
    by (simp add: sortedTransactions_def arraySort_def)
qed

text \<open>A sum depends on the amounts in their order only.\<close>

lemma sumAmounts_amounts: "sumAmounts xs = foldl (+) 0 (map amount xs)"
  by (simp add: sumAmounts_def foldl_map)

lemma amounts_by_type_toggle_list:
  "map amount (filter (\<lambda>t. P (type t))
      (map (\<lambda>t. if id' t = i then t\<lparr>isPaid := \<not> isPaid t\<rparr> else t) xs)) =
   map amount (filter (\<lambda>t. P (type t)) xs)"
  by (induction xs) auto

lemma sum_by_type_togglePaid:
  "sumAmounts (filter (\<lambda>t. P (type t)) (sortedTransactions parse (transactions (togglePaid i s)))) =
   sumAmounts (filter (\<lambda>t. P (type t)) (sortedTransactions parse (transactions s)))"
  "sumAmounts (rev (filter (\<lambda>t. P (type t))
      (sortedTransactions parse (transactions (togglePaid i s))))) =
   sumAmounts (rev (filter (\<lambda>t. P (type t)) (sortedTransactions parse (transactions s))))"
  "sumAmounts (filter (\<lambda>t. P (type t)) (transactions (togglePaid i s))) =
   sumAmounts (filter (\<lambda>t. P (type t)) (transactions s))"
  by (simp_all add: sumAmounts_amounts transactions_togglePaid sortedTransactions_toggle
      amounts_by_type_toggle_list rev_map [symmetric])

lemma income_togglePaid:
  "income (appTotals parse (togglePaid i s)) = income (appTotals parse s)"
  "income (appTotalsDetalhe parse (togglePaid i s)) = income (appTotalsDetalhe parse s)"
  using sum_by_type_togglePaid(2) [of "\<lambda>ty. ty = RECEITA" parse i s]
  by (simp_all add: totals_fields totalsDetalhe_fields appGrouped_def appGroupedDetalhe_def
      grouped_def groupedDetalhe_def)

lemma expenses_togglePaid:
  "expenses (appTotals parse (togglePaid i s)) = expenses (appTotals parse s)"
  "expenses (appTotalsDetalhe parse (togglePaid i s)) = expenses (appTotalsDetalhe parse s)"
proof -
  show "expenses (appTotals parse (togglePaid i s)) = expenses (appTotals parse s)"
    using sum_by_type_togglePaid(3) [of "\<lambda>ty. ty \<noteq> RECEITA" i s]
    by (simp add: totals_fields)
  show "expenses (appTotalsDetalhe parse (togglePaid i s)) = expenses (appTotalsDetalhe parse s)"
    using sum_by_type_togglePaid(1) [of "\<lambda>ty. ty = GASTO_FIXO" parse i s]
      sum_by_type_togglePaid(1) [of "\<lambda>ty. ty = GASTO_CARTAO" parse i s]
      sum_by_type_togglePaid(1) [of "\<lambda>ty. ty = GASTO_DIVERSO" parse i s]
    by (simp add: totalsDetalhe_fields appGroupedDetalhe_def groupedDetalhe_def)
qed

text \<open>The unpaid fixed expenses before and after.\<close>

lemma pendingFixed_unpaidFixed:
  "pendingFixed parse s = filter unpaidFixed (sortedTransactions parse (transactions s))"
  by (simp add: pendingFixed_def appGrouped_def grouped_def unpaidFixed_def [abs_def] conj_commute)

lemma unpaidFixed_after_toggle:
  assumes "\<forall>t \<in> set xs. id' t = i \<and> type t = GASTO_FIXO \<longrightarrow> \<not> isPaid t"
  shows "filter unpaidFixed (map (\<lambda>t. if id' t = i then t\<lparr>isPaid := \<not> isPaid t\<rparr> else t) xs) =
         filter (\<lambda>t. id' t \<noteq> i) (filter unpaidFixed xs)"
  using assms by (induction xs) (auto simp: unpaidFixed_def)

lemma filter_sorted_single:
  assumes "filter P xs = [r]"
  shows "filter P (sortedTransactions parse xs) = [r]"
proof -
  have "mset (filter P (sortedTransactions parse xs)) = mset (filter P xs)"
    by (simp add: mset_sortedTransactions)
  also have "\<dots> = {#r#}"
    by (simp only: assms mset.simps)
  finally show ?thesis
    by (simp only: mset_single_iff)
qed

lemma only_match_sorted:
  assumes "filter (\<lambda>t. id' t = i \<and> type t = GASTO_FIXO) xs = [r]"
  shows "filter (\<lambda>t. id' t = i \<and> type t = GASTO_FIXO) (sortedTransactions parse xs) = [r]"
  using assms by (rule filter_sorted_single)

lemma only_match_unpaid:
  assumes "filter (\<lambda>t. id' t = i \<and> type t = GASTO_FIXO) xs = [r]" and "\<not> isPaid r"
  shows "\<forall>t \<in> set xs. id' t = i \<and> type t = GASTO_FIXO \<longrightarrow> \<not> isPaid t"
proof (intro ballI impI)
  fix t assume "t \<in> set xs" and "id' t = i \<and> type t = GASTO_FIXO"
  then have "t \<in> set (filter (\<lambda>t. id' t = i \<and> type t = GASTO_FIXO) xs)"
    by simp
  with assms show "\<not> isPaid t"
    by simp
qed

lemma split_at_only_match:
  assumes "filter (\<lambda>t. id' t = i) xs = [r]"
  shows "\<exists>ys zs. xs = ys @ r # zs \<and> filter (\<lambda>t. id' t \<noteq> i) xs = ys @ zs"
  using assms
proof (induction xs)
  case Nil
  then show ?case by simp
next
  case (Cons x xs)
  show ?case
  proof (cases "id' x = i")
    case True
    with Cons.prems have "x = r" and rest: "filter (\<lambda>t. id' t = i) xs = []"
      by simp_all
    from rest have "filter (\<lambda>t. id' t \<noteq> i) xs = xs"
      by (induction xs) (auto split: if_splits)
    with True \<open>x = r\<close> have "x # xs = [] @ r # xs \<and> filter (\<lambda>t. id' t \<noteq> i) (x # xs) = [] @ xs"
      by simp
    then show ?thesis by blast
  next
    case False
    with Cons.prems have "filter (\<lambda>t. id' t = i) xs = [r]"
      by simp
    from Cons.IH [OF this] obtain ys zs
      where "xs = ys @ r # zs" and "filter (\<lambda>t. id' t \<noteq> i) xs = ys @ zs"
      by blast
    with False have "x # xs = (x # ys) @ r # zs
        \<and> filter (\<lambda>t. id' t \<noteq> i) (x # xs) = (x # ys) @ zs"
      by simp
    then show ?thesis by blast
  qed
qed

lemma pendingFixed_after_toggle:
  assumes only: "filter (\<lambda>t. id' t = id' r \<and> type t = GASTO_FIXO) (transactions s) = [r]"
    and unpaid: "\<not> isPaid r"
  shows "pendingFixed parse (togglePaid (id' r) s) =
           filter (\<lambda>t. id' t \<noteq> id' r) (pendingFixed parse s)"
    and "\<exists>xs ys. pendingFixed parse s = xs @ r # ys
           \<and> pendingFixed parse (togglePaid (id' r) s) = xs @ ys"
proof -
  note sorted_only = only_match_sorted [OF only, of parse]
  note all = only_match_unpaid [OF sorted_only unpaid]
  show after: "pendingFixed parse (togglePaid (id' r) s) =
      filter (\<lambda>t. id' t \<noteq> id' r) (pendingFixed parse s)"
    by (simp only: pendingFixed_unpaidFixed transactions_togglePaid sortedTransactions_toggle
        unpaidFixed_after_toggle [OF all])
  have "filter (\<lambda>t. id' t = id' r) (pendingFixed parse s) =
      filter (\<lambda>t. \<not> isPaid t)
        (filter (\<lambda>t. id' t = id' r \<and> type t = GASTO_FIXO)
          (sortedTransactions parse (transactions s)))"
    by (simp add: pendingFixed_unpaidFixed unpaidFixed_def conj_commute conj_left_commute)
  also have "\<dots> = [r]"
    using unpaid by (simp add: sorted_only)
  finally have "\<exists>xs ys. pendingFixed parse s = xs @ r # ys
      \<and> filter (\<lambda>t. id' t \<noteq> id' r) (pendingFixed parse s) = xs @ ys"
    by (rule split_at_only_match)
  then show "\<exists>xs ys. pendingFixed parse s = xs @ r # ys
      \<and> pendingFixed parse (togglePaid (id' r) s) = xs @ ys"
    by (simp add: after)
qed

lemma only_unpaid_rest_empty:
  assumes "filter unpaidFixed (transactions s) = [r]"
  shows "filter (\<lambda>t. id' t \<noteq> id' r) (pendingFixed parse s) = []"
proof -
  from assms have "pendingFixed parse s = [r]"
    unfolding pendingFixed_unpaidFixed by (rule filter_sorted_single)
  then show ?thesis
    by simp
qed

text \<open>
  Claim C9, amended. Let \<open>r\<close> be an unpaid fixed expense of the collection whose
  identifier no other fixed expense of the collection has. Then \<open>togglePaid (id' r)\<close>
  takes the amount of \<open>r\<close> out of the sum \<open>fixedPending\<close>: before, \<open>fixedPending\<close> adds up
  the amounts of a list in which \<open>r\<close> occurs, and afterwards those of the same list without
  \<open>r\<close>, in the same order; it is 0 when \<open>r\<close> was the only unpaid fixed expense. \<open>income\<close>
  and \<open>expenses\<close> stay as they were. Both revisions of the totals.
\<close>

theorem togglePaid_fixedPending:
  assumes "filter (\<lambda>t. id' t = id' r \<and> type t = GASTO_FIXO) (transactions s) = [r]"
    and "\<not> isPaid r"
  shows "fixedPending (appTotals parse s) = sumAmounts (pendingFixed parse s)
       \<and> fixedPending (appTotals parse (togglePaid (id' r) s))
           = sumAmounts (pendingFixed parse (togglePaid (id' r) s))
       \<and> (\<exists>xs ys. pendingFixed parse s = xs @ r # ys
             \<and> pendingFixed parse (togglePaid (id' r) s) = xs @ ys)
       \<and> (filter unpaidFixed (transactions s) = [r] \<longrightarrow>
            fixedPending (appTotals parse (togglePaid (id' r) s)) = 0)
       \<and> income (appTotals parse (togglePaid (id' r) s)) = income (appTotals parse s)
       \<and> expenses (appTotals parse (togglePaid (id' r) s)) = expenses (appTotals parse s)
       \<and> fixedPending (appTotalsDetalhe parse s) = sumAmounts (pendingFixed parse s)
       \<and> fixedPending (appTotalsDetalhe parse (togglePaid (id' r) s))
           = sumAmounts (pendingFixed parse (togglePaid (id' r) s))
       \<and> (filter unpaidFixed (transactions s) = [r] \<longrightarrow>
            fixedPending (appTotalsDetalhe parse (togglePaid (id' r) s)) = 0)
       \<and> income (appTotalsDetalhe parse (togglePaid (id' r) s)) = income (appTotalsDetalhe parse s)
       \<and> expenses (appTotalsDetalhe parse (togglePaid (id' r) s))
           = expenses (appTotalsDetalhe parse s)"
proof -
  note pend = pendingFixed_after_toggle [OF assms, of parse]
  have zero: "filter unpaidFixed (transactions s) = [r] \<Longrightarrow>
      sumAmounts (pendingFixed parse (togglePaid (id' r) s)) = 0"
    by (simp add: pend(1) only_unpaid_rest_empty sumAmounts_def)
  show ?thesis
    using pend(2) zero
    by (simp add: totals_fields(4) totalsDetalhe_fields(4) income_togglePaid expenses_togglePaid)
qed

theorem togglePaid_fixedPending_witness:
  "filter (\<lambda>t. id' t = id' rent \<and> type t = GASTO_FIXO) (transactions ledger) = [rent]
   \<and> \<not> isPaid rent
   \<and> filter unpaidFixed (transactions ledger) = [rent]
   \<and> fixedPending (appTotals parseIsoDate ledger) = Fin 1500
   \<and> fixedPending (appTotals parseIsoDate (togglePaid (id' rent) ledger)) = 0
   \<and> income (appTotals parseIsoDate (togglePaid (id' rent) ledger)) = Fin 5000
   \<and> expenses (appTotals parseIsoDate (togglePaid (id' rent) ledger)) = Fin 1500"
proof -
  have only: "filter (\<lambda>t. id' t = id' rent \<and> type t = GASTO_FIXO) (transactions ledger) = [rent]"
    by (simp add: ledger_def rent_def salary_def)
  have unpaid: "\<not> isPaid rent"
    by (simp add: rent_def)
  have single: "filter unpaidFixed (transactions ledger) = [rent]"
    by (simp add: ledger_def rent_def salary_def unpaidFixed_def)
  from togglePaid_fixedPending [OF only unpaid, of parseIsoDate]
  have zero: "filter unpaidFixed (transactions ledger) = [rent] \<longrightarrow>
        fixedPending (appTotals parseIsoDate (togglePaid (id' rent) ledger)) = 0"
    and inc: "income (appTotals parseIsoDate (togglePaid (id' rent) ledger)) =
        income (appTotals parseIsoDate ledger)"
    and exp: "expenses (appTotals parseIsoDate (togglePaid (id' rent) ledger)) =
        expenses (appTotals parseIsoDate ledger)"
    by blast+
  from zero single
  have "fixedPending (appTotals parseIsoDate (togglePaid (id' rent) ledger)) = 0"
    by blast
  then show ?thesis
    using only unpaid single inc exp scenario_totals by simp
qed

text \<open>
  Claim C9 as stated fails where a second fixed expense has the identifier: on the second
  ledger the rent is the only unpaid fixed expense, and after \<open>togglePaid\<close> with its
  identifier \<open>fixedPending\<close> is 700, the amount of the twin that became unpaid.
\<close>

theorem togglePaid_fixedPending_counterexample:
  "rent \<in> set (transactions twinLedger) \<and> unpaidFixed rent
   \<and> filter unpaidFixed (transactions twinLedger) = [rent]
   \<and> fixedPending (appTotals parseIsoDate twinLedger) = Fin 1500
   \<and> fixedPending (appTotals parseIsoDate (togglePaid (id' rent) twinLedger)) = Fin 700
   \<and> fixedPending (appTotals parseIsoDate (togglePaid (id' rent) twinLedger)) \<noteq> 0
   \<and> fixedPending (appTotalsDetalhe parseIsoDate (togglePaid (id' rent) twinLedger)) \<noteq> 0"
proof -
  have before: "sortedTransactions parseIsoDate (transactions twinLedger) = [rent, rentTwin]"
    by (simp add: sort_defs twinLedger_def rentTwin_def rent_def parseIsoDate_defs upt_conv_Cons)
  have after: "pendingFixed parseIsoDate (togglePaid (id' rent) twinLedger) =
      [rentTwin\<lparr>isPaid := False\<rparr>]"
    by (simp add: pendingFixed_unpaidFixed transactions_togglePaid sortedTransactions_toggle before)
      (simp add: unpaidFixed_def rentTwin_def rent_def)
  have "pendingFixed parseIsoDate twinLedger = [rent]"
    by (simp add: pendingFixed_unpaidFixed before) (simp add: unpaidFixed_def rentTwin_def rent_def)
  then have b: "fixedPending (appTotals parseIsoDate twinLedger) = Fin 1500"
    by (simp add: totals_fields(4) sumAmounts_def rent_def zero_number_def)
  from after have a: "sumAmounts (pendingFixed parseIsoDate (togglePaid (id' rent) twinLedger))
      = Fin 700"
    by (simp add: sumAmounts_def rentTwin_def zero_number_def)
  have members: "rent \<in> set (transactions twinLedger) \<and> unpaidFixed rent
      \<and> filter unpaidFixed (transactions twinLedger) = [rent]"
    by (simp add: twinLedger_def rentTwin_def rent_def unpaidFixed_def)
  from a b members show ?thesis
    by (simp add: totals_fields(4) totalsDetalhe_fields(4) zero_number_def)
qed

section \<open>Properties of the remote load\<close>

lemma loadFromGoogleSheets_Inr:
  "loadFromGoogleSheets fetch url = Inr data \<longleftrightarrow> fetch url = Response True (Some data)"
  by (auto simp: loadFromGoogleSheets_def split: FetchResult.splits option.splits)

lemma transactions_handleLoad:
  "transactions (handleLoad confirmed fetch s) =
     (if sheetUrl s = [] \<or> \<not> confirmed then transactions s
      else case loadFromGoogleSheets fetch (sheetUrl s) of
             Inl e \<Rightarrow> transactions s | Inr data \<Rightarrow> data)"
  by (simp add: handleLoad_def Let_def split: sum.splits)

text \<open>
  Claim C5. When the load fails, by a rejected request or a response that is not \<open>ok\<close>
  (or by any other error of \<open>loadFromGoogleSheets\<close>, such as a body that is not JSON),
  \<open>handleLoad\<close> leaves the collection as it was. When the load succeeds, the parsed body
  becomes the collection as it is, whatever records it holds. Without an endpoint or
  without the user's confirmation nothing changes. So the collection afterwards is either
  the old one or the loaded one.
\<close>

theorem handleLoad_atomic:
  "(fetch (sheetUrl s) = NetworkError \<or> (\<exists>body. fetch (sheetUrl s) = Response False body) \<longrightarrow>
      loadFromGoogleSheets fetch (sheetUrl s) \<in> {Inl FetchRejected, Inl FalhaAoCarregarDados}
      \<and> transactions (handleLoad confirmed fetch s) = transactions s)
   \<and> (\<forall>e. loadFromGoogleSheets fetch (sheetUrl s) = Inl e \<longrightarrow>
          transactions (handleLoad confirmed fetch s) = transactions s)
   \<and> (\<forall>data. sheetUrl s \<noteq> [] \<and> confirmed \<and> fetch (sheetUrl s) = Response True (Some data) \<longrightarrow>
          loadFromGoogleSheets fetch (sheetUrl s) = Inr data
          \<and> transactions (handleLoad confirmed fetch s) = data)
   \<and> (sheetUrl s = [] \<or> \<not> confirmed \<longrightarrow> handleLoad confirmed fetch s = s)
   \<and> (transactions (handleLoad confirmed fetch s) = transactions s
        \<or> loadFromGoogleSheets fetch (sheetUrl s)
             = Inr (transactions (handleLoad confirmed fetch s)))"
proof -
  have fail: "fetch (sheetUrl s) = NetworkError \<or> (\<exists>body. fetch (sheetUrl s) = Response False body)
      \<Longrightarrow> loadFromGoogleSheets fetch (sheetUrl s) \<in> {Inl FetchRejected, Inl FalhaAoCarregarDados}"
    by (auto simp: loadFromGoogleSheets_def)
  have keep: "loadFromGoogleSheets fetch (sheetUrl s) = Inl e \<Longrightarrow>
      transactions (handleLoad confirmed fetch s) = transactions s" for e
    by (simp add: transactions_handleLoad)
  have replace: "sheetUrl s \<noteq> [] \<Longrightarrow> confirmed \<Longrightarrow> fetch (sheetUrl s) = Response True (Some data)
      \<Longrightarrow> loadFromGoogleSheets fetch (sheetUrl s) = Inr data
        \<and> transactions (handleLoad confirmed fetch s) = data" for data
    by (simp add: transactions_handleLoad loadFromGoogleSheets_Inr [symmetric])
  have skip: "sheetUrl s = [] \<or> \<not> confirmed \<Longrightarrow> handleLoad confirmed fetch s = s"
    by (auto simp: handleLoad_def)
  have either: "transactions (handleLoad confirmed fetch s) = transactions s
        \<or> loadFromGoogleSheets fetch (sheetUrl s)
             = Inr (transactions (handleLoad confirmed fetch s))"
    by (simp add: transactions_handleLoad split: sum.splits)
  from fail keep replace skip either show ?thesis
    by blast
qed

theorem handleLoad_atomic_witness:
  "fetchFails (sheetUrl ledger) = NetworkError
   \<and> transactions (handleLoad True fetchFails ledger) = [rent, salary]
   \<and> fetchForbidden (sheetUrl ledger) = Response False None
   \<and> transactions (handleLoad True fetchForbidden ledger) = [rent, salary]
   \<and> sheetUrl ledger \<noteq> []
   \<and> fetchTwins (sheetUrl ledger) = Response True (Some [rentTwin, rentTwin])
   \<and> transactions (handleLoad True fetchTwins ledger) = [rentTwin, rentTwin]
   \<and> handleLoad False fetchTwins ledger = ledger"
proof -
  have down: "fetchFails (sheetUrl ledger) = NetworkError"
    by (simp add: fetchFails_def)
  have denied: "fetchForbidden (sheetUrl ledger) = Response False None"
    by (simp add: fetchForbidden_def)
  have url: "sheetUrl ledger \<noteq> []"
    by (simp add: ledger_def)
  have twins: "fetchTwins (sheetUrl ledger) = Response True (Some [rentTwin, rentTwin])"
    by (simp add: fetchTwins_def)
  have old: "transactions ledger = [rent, salary]"
    by (simp add: ledger_def)
  from handleLoad_atomic [of fetchFails ledger True] down
  have a: "transactions (handleLoad True fetchFails ledger) = transactions ledger"
    by blast
  from handleLoad_atomic [of fetchForbidden ledger True] denied
  have b: "transactions (handleLoad True fetchForbidden ledger) = transactions ledger"
    by blast
  from handleLoad_atomic [of fetchTwins ledger True] url twins
  have c: "transactions (handleLoad True fetchTwins ledger) = [rentTwin, rentTwin]"
    by blast
  from handleLoad_atomic [of fetchTwins ledger False]
  have d: "handleLoad False fetchTwins ledger = ledger"
    by blast
  from a b c d down denied url twins old show ?thesis
    by simp
qed

section \<open>Properties of the card buckets\<close>

lemma groups_mset:
  "mset (receitasD (appGroupedDetalhe parse s)) + mset (gastosFixosD (appGroupedDetalhe parse s))
     + mset (gastosCartoesD (appGroupedDetalhe parse s))
     + mset (gastosDiversosD (appGroupedDetalhe parse s)) = mset (transactions s)"
  using mset_by_type [of "transactions s"]
  by (simp only: groups_mset_each)

lemma groups_mset_first_revision:
  "mset (receitas (appGrouped parse s)) + mset (gastosFixos (appGrouped parse s))
     + mset (gastosCartoes (appGrouped parse s))
     = filter_mset (\<lambda>t. type t \<noteq> GASTO_DIVERSO) (mset (transactions s))"
  by (simp only: first_revision_groups groups_mset_each mset_without_misc)

lemma groups_set:
  "set (receitasD (appGroupedDetalhe parse s)) = {t \<in> set (transactions s). type t = RECEITA}"
  "set (gastosFixosD (appGroupedDetalhe parse s)) = {t \<in> set (transactions s). type t = GASTO_FIXO}"
  "set (gastosCartoesD (appGroupedDetalhe parse s)) = {t \<in> set (transactions s). type t = GASTO_CARTAO}"
  "set (gastosDiversosD (appGroupedDetalhe parse s)) = {t \<in> set (transactions s). type t = GASTO_DIVERSO}"
  by (simp_all add: appGroupedDetalhe_def groupedDetalhe_def set_sortedTransactions)

lemma misc_in_no_group_first_revision:
  assumes "type t = GASTO_DIVERSO"
  shows "t \<notin> set (receitas (appGrouped parse s)) \<and> t \<notin> set (gastosFixos (appGrouped parse s))
       \<and> t \<notin> set (gastosCartoes (appGrouped parse s))"
  using assms by (simp add: first_revision_groups groups_set)

lemma bucket_keys:
  "map fst (cartoesDetalhe (appGroupedDetalhe parse s)) = cardNames" "distinct cardNames"
  by (simp_all add: appGroupedDetalhe_def groupedDetalhe_def cardNames_def)

lemma bucket_of:
  "map_of (cartoesDetalhe (appGroupedDetalhe parse s)) c =
     (if c \<in> set cardNames
      then Some (filter (\<lambda>t. cardName t = Some c) (sortedTransactions parse (transactions s)))
      else None)"
  by (simp add: appGroupedDetalhe_def groupedDetalhe_def cardNames_def)

text \<open>
  Claim C6, amended. The second revision of the grouping partitions the collection by
  type into the four groups: together they hold every record exactly once, each one the
  records of its type. The first revision has the same income, fixed and card groups and
  no misc group: together they hold the records that are not \<open>GASTO_DIVERSO\<close>, and a misc
  expense is in none of them. In both revisions the card buckets are keyed by exactly the
  four configured names, once each; the bucket of a name holds the records with that
  \<open>cardName\<close>, of whatever type, and the card expenses with that name are the card
  expenses of its bucket. Where only card expenses carry a \<open>cardName\<close>, every bucket lies
  within the card-expense group. A record whose \<open>cardName\<close> is none of the configured names
  is in no bucket.
\<close>

theorem grouped_partition:
  "mset (receitasD (appGroupedDetalhe parse s)) + mset (gastosFixosD (appGroupedDetalhe parse s))
     + mset (gastosCartoesD (appGroupedDetalhe parse s))
     + mset (gastosDiversosD (appGroupedDetalhe parse s)) = mset (transactions s)
   \<and> set (receitasD (appGroupedDetalhe parse s)) = {t \<in> set (transactions s). type t = RECEITA}
   \<and> set (gastosFixosD (appGroupedDetalhe parse s)) = {t \<in> set (transactions s). type t = GASTO_FIXO}
   \<and> set (gastosCartoesD (appGroupedDetalhe parse s))
       = {t \<in> set (transactions s). type t = GASTO_CARTAO}
   \<and> set (gastosDiversosD (appGroupedDetalhe parse s))
       = {t \<in> set (transactions s). type t = GASTO_DIVERSO}
   \<and> receitas (appGrouped parse s) = receitasD (appGroupedDetalhe parse s)
   \<and> gastosFixos (appGrouped parse s) = gastosFixosD (appGroupedDetalhe parse s)
   \<and> gastosCartoes (appGrouped parse s) = gastosCartoesD (appGroupedDetalhe parse s)
   \<and> cartoes (appGrouped parse s) = cartoesDetalhe (appGroupedDetalhe parse s)
   \<and> mset (receitas (appGrouped parse s)) + mset (gastosFixos (appGrouped parse s))
       + mset (gastosCartoes (appGrouped parse s))
       = filter_mset (\<lambda>t. type t \<noteq> GASTO_DIVERSO) (mset (transactions s))
   \<and> (\<forall>t. type t = GASTO_DIVERSO \<longrightarrow>
         t \<notin> set (receitas (appGrouped parse s)) \<and> t \<notin> set (gastosFixos (appGrouped parse s))
         \<and> t \<notin> set (gastosCartoes (appGrouped parse s)))
   \<and> map fst (cartoesDetalhe (appGroupedDetalhe parse s)) = cardNames
   \<and> cardNames = [''BaneseCard'', ''Nubank Davi'', ''Torra'', ''Iti Tuy''] \<and> distinct cardNames
   \<and> (\<forall>c \<in> set cardNames. \<exists>b.
         map_of (cartoesDetalhe (appGroupedDetalhe parse s)) c = Some b
         \<and> b = filter (\<lambda>t. cardName t = Some c) (sortedTransactions parse (transactions s))
         \<and> set b = {t \<in> set (transactions s). cardName t = Some c}
         \<and> filter (\<lambda>t. type t = GASTO_CARTAO) b
             = filter (\<lambda>t. cardName t = Some c) (gastosCartoesD (appGroupedDetalhe parse s)))
   \<and> (\<forall>t. cardName t \<notin> Some ` set cardNames \<longrightarrow>
         (\<forall>c b. map_of (cartoesDetalhe (appGroupedDetalhe parse s)) c = Some b \<longrightarrow> t \<notin> set b))
   \<and> ((\<forall>t \<in> set (transactions s). cardName t \<noteq> None \<longrightarrow> type t = GASTO_CARTAO) \<longrightarrow>
         (\<forall>c b. map_of (cartoesDetalhe (appGroupedDetalhe parse s)) c = Some b \<longrightarrow>
            set b \<subseteq> set (gastosCartoesD (appGroupedDetalhe parse s))))"
proof -
  have buckets: "\<forall>c \<in> set cardNames. \<exists>b.
         map_of (cartoesDetalhe (appGroupedDetalhe parse s)) c = Some b
         \<and> b = filter (\<lambda>t. cardName t = Some c) (sortedTransactions parse (transactions s))
         \<and> set b = {t \<in> set (transactions s). cardName t = Some c}
         \<and> filter (\<lambda>t. type t = GASTO_CARTAO) b
             = filter (\<lambda>t. cardName t = Some c) (gastosCartoesD (appGroupedDetalhe parse s))"
  proof
    fix c assume "c \<in> set cardNames"
    then have "map_of (cartoesDetalhe (appGroupedDetalhe parse s)) c =
        Some (filter (\<lambda>t. cardName t = Some c) (sortedTransactions parse (transactions s)))"
      by (simp add: bucket_of)
    moreover have "filter (\<lambda>t. type t = GASTO_CARTAO)
          (filter (\<lambda>t. cardName t = Some c) (sortedTransactions parse (transactions s)))
        = filter (\<lambda>t. cardName t = Some c) (gastosCartoesD (appGroupedDetalhe parse s))"
      by (simp add: appGroupedDetalhe_def groupedDetalhe_def conj_commute)
    ultimately show "\<exists>b.
         map_of (cartoesDetalhe (appGroupedDetalhe parse s)) c = Some b
         \<and> b = filter (\<lambda>t. cardName t = Some c) (sortedTransactions parse (transactions s))
         \<and> set b = {t \<in> set (transactions s). cardName t = Some c}
         \<and> filter (\<lambda>t. type t = GASTO_CARTAO) b
             = filter (\<lambda>t. cardName t = Some c) (gastosCartoesD (appGroupedDetalhe parse s))"
      by (simp add: set_sortedTransactions)
  qed
  have absent: "\<forall>t. cardName t \<notin> Some ` set cardNames \<longrightarrow>
         (\<forall>c b. map_of (cartoesDetalhe (appGroupedDetalhe parse s)) c = Some b \<longrightarrow> t \<notin> set b)"
    by (auto simp: bucket_of split: if_splits)
  have inv: "(\<forall>t \<in> set (transactions s). cardName t \<noteq> None \<longrightarrow> type t = GASTO_CARTAO) \<longrightarrow>
         (\<forall>c b. map_of (cartoesDetalhe (appGroupedDetalhe parse s)) c = Some b \<longrightarrow>
            set b \<subseteq> set (gastosCartoesD (appGroupedDetalhe parse s)))"
    by (auto simp: bucket_of groups_set set_sortedTransactions split: if_splits)
  have misc: "\<forall>t. type t = GASTO_DIVERSO \<longrightarrow>
         t \<notin> set (receitas (appGrouped parse s)) \<and> t \<notin> set (gastosFixos (appGrouped parse s))
         \<and> t \<notin> set (gastosCartoes (appGrouped parse s))"
    using misc_in_no_group_first_revision by blast
  have names: "cardNames = [''BaneseCard'', ''Nubank Davi'', ''Torra'', ''Iti Tuy'']"
    by (simp add: cardNames_def)
  from groups_mset [of parse s] groups_set [of parse s] first_revision_groups [of parse s]
    groups_mset_first_revision [of parse s] misc bucket_keys(1) [of parse s] bucket_keys(2) names
    buckets absent inv
  show ?thesis
    by blast
qed

lemma sorted_cardLedger:
  "sortedTransactions parseIsoDate (transactions cardLedger) = [shoes, salary, rent, phone]"
  by (simp add: sort_defs cardLedger_def ledger_def shoes_def phone_def rent_def salary_def
      parseIsoDate_defs upt_conv_Cons)

theorem grouped_partition_witness:
  "''Nubank Davi'' \<in> set cardNames
   \<and> map_of (cartoesDetalhe (appGroupedDetalhe parseIsoDate cardLedger)) ''Nubank Davi'' = Some [phone]
   \<and> cardName shoes \<notin> Some ` set cardNames
   \<and> shoes \<notin> set [phone]
   \<and> type snack = GASTO_DIVERSO
   \<and> snack \<notin> set (gastosFixos (appGrouped parseIsoDate mixedLedger))
   \<and> set [phone] \<subseteq> set (gastosCartoesD (appGroupedDetalhe parseIsoDate cardLedger))"
proof -
  have card: "''Nubank Davi'' \<in> set cardNames"
    by (simp add: cardNames_def)
  have other: "cardName shoes \<notin> Some ` set cardNames"
    by (simp add: cardNames_def shoes_def phone_def)
  have inv: "\<forall>t \<in> set (transactions cardLedger). cardName t \<noteq> None \<longrightarrow> type t = GASTO_CARTAO"
    by (simp add: cardLedger_def shoes_def phone_def rent_def salary_def)
  have nubank: "filter (\<lambda>t. cardName t = Some ''Nubank Davi'')
      (sortedTransactions parseIsoDate (transactions cardLedger)) = [phone]"
    unfolding sorted_cardLedger by (simp add: shoes_def phone_def rent_def salary_def)
  have misc: "type snack = GASTO_DIVERSO"
    by (simp add: snack_def)
  note part = grouped_partition [of parseIsoDate cardLedger]
  from part card nubank
  have bucket: "map_of (cartoesDetalhe (appGroupedDetalhe parseIsoDate cardLedger)) ''Nubank Davi''
      = Some [phone]"
    by auto
  from part other bucket have out: "shoes \<notin> set [phone]"
    by blast
  from part inv bucket
  have sub: "set [phone] \<subseteq> set (gastosCartoesD (appGroupedDetalhe parseIsoDate cardLedger))"
    by blast
  from grouped_partition [of parseIsoDate mixedLedger] misc
  have none: "snack \<notin> set (gastosFixos (appGrouped parseIsoDate mixedLedger))"
    by blast
  from card bucket other out misc none sub show ?thesis
    by blast
qed

text \<open>
  Claim C6 as stated fails in two places. In the first revision the misc expense of the
  third ledger, a record of the collection, is in none of the groups. And the bucket of
  \<open>Torra\<close> holds the fee, which is a fixed expense and not a card expense.
\<close>

theorem grouped_partition_counterexample:
  "snack \<in> set (transactions mixedLedger) \<and> type snack = GASTO_DIVERSO
   \<and> snack \<notin> set (receitas (appGrouped parseIsoDate mixedLedger))
   \<and> snack \<notin> set (gastosFixos (appGrouped parseIsoDate mixedLedger))
   \<and> snack \<notin> set (gastosCartoes (appGrouped parseIsoDate mixedLedger))
   \<and> map_of (cartoes (appGrouped parseIsoDate mixedLedger)) ''Torra'' = Some [fee]
   \<and> map_of (cartoesDetalhe (appGroupedDetalhe parseIsoDate mixedLedger)) ''Torra'' = Some [fee]
   \<and> type fee = GASTO_FIXO"
proof -
  have sorted: "sortedTransactions parseIsoDate (transactions mixedLedger) = [salary, snack, fee]"
    by (simp add: sort_defs mixedLedger_def fee_def snack_def rent_def salary_def
        parseIsoDate_defs upt_conv_Cons)
  have "snack \<in> set (transactions mixedLedger) \<and> type snack = GASTO_DIVERSO \<and> type fee = GASTO_FIXO"
    by (simp add: mixedLedger_def snack_def fee_def rent_def)
  moreover have "snack \<notin> set (receitas (appGrouped parseIsoDate mixedLedger))
      \<and> snack \<notin> set (gastosFixos (appGrouped parseIsoDate mixedLedger))
      \<and> snack \<notin> set (gastosCartoes (appGrouped parseIsoDate mixedLedger))"
    by (rule misc_in_no_group_first_revision) (simp add: snack_def)
  moreover have "map_of (cartoesDetalhe (appGroupedDetalhe parseIsoDate mixedLedger)) ''Torra''
      = Some [fee]"
    by (simp add: bucket_of cardNames_def sorted) (simp add: fee_def snack_def rent_def salary_def)
  ultimately show ?thesis
    by (simp add: first_revision_groups)
qed

section \<open>Properties of the overdue test\<close>

lemma setHours0_Some: "setHours0 tza (Some t) = Some (localDay tza t * msPerDay - tza)"
  by (simp add: setHours0_def localDay_def)

lemma isOverdue_paid: "\<not> isOverdue parse tza now dateStr True"
  by (simp add: isOverdue_def)

lemma isOverdue_iff:
  "isOverdue parse tza now dateStr paid \<longleftrightarrow>
     \<not> paid \<and> (\<exists>t. parse dateStr = Some t \<and> localDay tza t < localDay tza now)"
  by (cases "parse dateStr")
    (simp_all add: isOverdue_def Let_def dateLess_def setHours0_def localDay_def msPerDay_def)

lemma localDay_date_only: "localDay tza (day * msPerDay) = day + tza div msPerDay"
  by (simp add: localDay_def msPerDay_def)

lemma isOverdue_date_only_east:
  assumes "0 \<le> tza" "tza < msPerDay" "parse dateStr = Some (day * msPerDay)"
  shows "isOverdue parse tza now dateStr paid \<longleftrightarrow> \<not> paid \<and> day < localDay tza now"
  using assms by (simp add: isOverdue_iff localDay_date_only)

lemma isOverdue_date_only_west:
  assumes "- msPerDay \<le> tza" "tza < 0" "parse dateStr = Some (day * msPerDay)"
  shows "isOverdue parse tza now dateStr paid \<longleftrightarrow> \<not> paid \<and> day \<le> localDay tza now"
proof -
  from assms(1,2) have "tza div msPerDay = - 1"
    by (simp add: msPerDay_def)
  with assms(3) show ?thesis
    by (auto simp: isOverdue_iff localDay_date_only)
qed

text \<open>
  Claim C4. A paid record is never overdue (\<open>isOverdue_paid\<close>), and an unpaid one is overdue
  exactly when the local day of its parsed date is before the local day of \<open>now\<close>
  (\<open>isOverdue_iff\<close>). For the dates the form produces the parsed date is midnight UTC, and
  its local day is the day before in every zone west of Greenwich
  (\<open>isOverdue_date_only_west\<close>): there an unpaid record is overdue on its due day already.
  The theorem evaluates this in the zone UTC-3 at noon of 10 January 2024, local time, for
  the rent, which is due on that day.
\<close>

theorem isOverdue_due_today_west_of_utc:
  "date rent = ''2024-01-10'' \<and> \<not> isPaid rent
   \<and> parseIsoDate ''2024-01-10'' = Some (19732 * msPerDay)
   \<and> localDay utcMinus3 noonJan10 = 19732
   \<and> isOverdue parseIsoDate utcMinus3 noonJan10 (date rent) (isPaid rent)"
proof -
  have p: "parseIsoDate ''2024-01-10'' = Some (19732 * msPerDay)"
    by (simp add: parseIsoDate_defs upt_conv_Cons)
  have today: "localDay utcMinus3 noonJan10 = 19732"
    by (simp add: localDay_def utcMinus3_def noonJan10_def msPerDay_def)
  have "isOverdue parseIsoDate utcMinus3 noonJan10 ''2024-01-10'' False"
    unfolding isOverdue_iff p using today
    by (simp add: localDay_def utcMinus3_def msPerDay_def)
  with p today show ?thesis
    by (simp add: rent_def)
qed

text \<open>At UTC the same record is not overdue on its due day, and is on the day after.\<close>

lemma not_overdue_due_today_at_utc:
  "\<not> isOverdue parseIsoDate 0 noonJan10 ''2024-01-10'' False"
  "isOverdue parseIsoDate 0 noonJan10 ''2024-01-09'' False"
  by (simp_all add: isOverdue_iff localDay_def noonJan10_def parseIsoDate_defs upt_conv_Cons)

end
